theory Spec2Isabelle
  imports Complex_Main
begin

section \<open>FOM scatter plot: data model\<close>

text \<open>
  The program (\<^verbatim>\<open>Main.py\<close>) reads the sheet \<^verbatim>\<open>FOM_Data\<close> of a spreadsheet into a
  pandas data frame, drops the rows without FOM values, resolves a reference (SOTA) line and
  plots everything. The embedding follows the source function by function.

  Conventions of the embedding:
  \<^item> A float64 cell is a \<open>real option\<close>: \<open>None\<close> is NaN, pandas' missing value, and a
    finite float is idealised as the real number it denotes (no rounding).
  \<^item> A text cell is a \<open>string option\<close>, \<open>None\<close> again the missing value. Characters
    are 8-bit, so a string is a sequence of code points below 256.
  \<^item> A data frame is the list of its column names and the list of its rows. The columns
    carry the types that the data model of the specification gives them.
  \<^item> A Python exception is a value \<open>Inl e\<close> of the result type \<open>error + 'a\<close>.
\<close>

datatype error =
    KeyError string
  | IndexError
  | ValueError
  | SystemExit nat
  | RuntimeError

type_synonym flt = "real option"

record row =
  ID :: string
  Label :: "string option"
  X_FOM :: flt
  Y_FOM :: flt
  Chart_Title :: "string option"
  X_FOM_Name :: "string option"
  Y_FOM_Name :: "string option"
  SOTA_Override :: "string option"

record dataframe =
  columns :: "string list"
  rows :: "row list"

text \<open>
  The reference function maps an array of x-values to the array of predicted y-values
  (numpy broadcasting of \<^verbatim>\<open>slope * x + intercept\<close>, or \<^verbatim>\<open>np.full_like\<close>).
\<close>

type_synonym reference_function = "real list \<Rightarrow> flt list"

subsection \<open>pandas primitives\<close>

text \<open>\<^verbatim>\<open>df[name]\<close>: the column as a series, KeyError when the frame has no such column.\<close>

definition column :: "dataframe \<Rightarrow> string \<Rightarrow> (row \<Rightarrow> 'a) \<Rightarrow> error + 'a list" where
  "column df name field =
     (if name \<in> set (columns df) then Inr (map field (rows df)) else Inl (KeyError name))"

text \<open>\<^verbatim>\<open>series.dropna()\<close>: the values that are present, in order.\<close>

fun dropna :: "'a option list \<Rightarrow> 'a list" where
  "dropna [] = []"
| "dropna (None # s) = dropna s"
| "dropna (Some v # s) = v # dropna s"

text \<open>\<^verbatim>\<open>series.values[0]\<close>: IndexError on an empty series.\<close>

definition values0 :: "'a list \<Rightarrow> error + 'a" where
  "values0 s = (case s of [] \<Rightarrow> Inl IndexError | v # _ \<Rightarrow> Inr v)"

text \<open>\<^verbatim>\<open>s.startswith(p)\<close>\<close>

definition startswith :: "string \<Rightarrow> string \<Rightarrow> bool" where
  "startswith s p = (take (length p) s = p)"

text \<open>\<^verbatim>\<open>df[df["ID"].str.startswith(p)]\<close>: the rows selected by the mask, in order.\<close>

definition select_prefix :: "dataframe \<Rightarrow> string \<Rightarrow> error + dataframe" where
  "select_prefix df p =
     (case column df ''ID'' ID of
        Inl e \<Rightarrow> Inl e
      | Inr ids \<Rightarrow> Inr (df\<lparr>rows := filter (\<lambda>r. startswith (ID r) p) (rows df)\<rparr>))"

section \<open>Data Loader\<close>

text \<open>
  \<^verbatim>\<open>
  def load_fom_data(filepath):
      try:
          df = pd.read_excel(filepath, sheet_name="FOM_Data")
          df.dropna(subset=["X FOM", "Y FOM"], inplace=True)
          return df
      except Exception as e:
          messagebox.showerror("Error", f"Failed to load Excel file:\n{e}")
          exit(1)
  \<close>
  Reading the file is outside the embedding: the argument is what \<^verbatim>\<open>pd.read_excel\<close>
  gives, a frame or an exception. \<^verbatim>\<open>dropna\<close> raises KeyError when a column of the
  subset is missing; every exception ends in \<^verbatim>\<open>exit(1)\<close>.
\<close>

definition isna_fom :: "row \<Rightarrow> bool" where
  "isna_fom r = (X_FOM r = None \<or> Y_FOM r = None)"

definition dropna_fom :: "dataframe \<Rightarrow> error + dataframe" where
  "dropna_fom df =
     (if ''X FOM'' \<notin> set (columns df) then Inl (KeyError ''X FOM'')
      else if ''Y FOM'' \<notin> set (columns df) then Inl (KeyError ''Y FOM'')
      else Inr (df\<lparr>rows := filter (\<lambda>r. \<not> isna_fom r) (rows df)\<rparr>))"

definition load_fom_data :: "error + dataframe \<Rightarrow> error + dataframe" where
  "load_fom_data read_excel =
     (case read_excel of
        Inl e \<Rightarrow> Inl (SystemExit 1)
      | Inr df \<Rightarrow>
          (case dropna_fom df of
             Inl e \<Rightarrow> Inl (SystemExit 1)
           | Inr df' \<Rightarrow> Inr df'))"

section \<open>Metadata Extractor\<close>

text \<open>
  \<^verbatim>\<open>
  chart_title = df["Chart Title"].dropna().values[0]
      if "Chart Title" in df.columns and not df["Chart Title"].dropna().empty
      else "Figure of Merit (FOM) Scatter Plot"
  \<close>
  and the same for the two axis names. The condition is evaluated first, left to right.
\<close>

definition metadata_value ::
  "dataframe \<Rightarrow> string \<Rightarrow> (row \<Rightarrow> string option) \<Rightarrow> string \<Rightarrow> error + string" where
  "metadata_value df name field dflt =
     (if name \<in> set (columns df) then
        (case column df name field of
           Inl e \<Rightarrow> Inl e
         | Inr s \<Rightarrow>
             if dropna s \<noteq> [] then
               (case column df name field of
                  Inl e \<Rightarrow> Inl e
                | Inr s' \<Rightarrow> values0 (dropna s'))
             else Inr dflt)
      else Inr dflt)"

definition get_chart_metadata :: "dataframe \<Rightarrow> error + (string \<times> string \<times> string)" where
  "get_chart_metadata df =
     (case metadata_value df ''Chart Title'' Chart_Title ''Figure of Merit (FOM) Scatter Plot'' of
        Inl e \<Rightarrow> Inl e
      | Inr chart_title \<Rightarrow>
     (case metadata_value df ''X FOM Name'' X_FOM_Name ''X FOM'' of
        Inl e \<Rightarrow> Inl e
      | Inr x_name \<Rightarrow>
     (case metadata_value df ''Y FOM Name'' Y_FOM_Name ''Y FOM'' of
        Inl e \<Rightarrow> Inl e
      | Inr y_name \<Rightarrow> Inr (chart_title, x_name, y_name))))"

text \<open>
  The specification's wording of the same rule, to compare with: the first non-empty value
  of the column when the column exists and has one, otherwise the default.
\<close>

definition first_nonempty_or ::
  "dataframe \<Rightarrow> string \<Rightarrow> (row \<Rightarrow> string option) \<Rightarrow> string \<Rightarrow> string" where
  "first_nonempty_or df name field dflt =
     (if name \<in> set (columns df) then
        (case find (\<lambda>c. c \<noteq> None) (map field (rows df)) of
           Some (Some v) \<Rightarrow> v
         | _ \<Rightarrow> dflt)
      else dflt)"

section \<open>Reference-Line Resolver\<close>

subsection \<open>The override pattern\<close>

text \<open>
  \<^verbatim>\<open>re.search(r"y\s*=\s*([\d\.]+)\s*\*\s*x\s*\+?\s*([\d\.-]*)", s)\<close>

  The character classes, on 8-bit code points: \<^verbatim>\<open>\s\<close> is Python's Unicode white space
  (tab to carriage return, the four separators 0x1C to 0x1F, the blank, 0x85 and 0xA0) and
  \<^verbatim>\<open>\d\<close> the ten decimal digits.
\<close>

definition is_space :: "char \<Rightarrow> bool" where
  "is_space c =
     (c \<in> set [CHR 0x09, CHR 0x0A, CHR 0x0B, CHR 0x0C, CHR 0x0D,
                CHR 0x1C, CHR 0x1D, CHR 0x1E, CHR 0x1F, CHR '' '', CHR 0x85, CHR 0xA0])"

definition is_digit :: "char \<Rightarrow> bool" where
  "is_digit c = (c \<in> set ''0123456789'')"

definition slope_char :: "char \<Rightarrow> bool" where
  "slope_char c = (is_digit c \<or> c = CHR ''.'')"

definition intercept_char :: "char \<Rightarrow> bool" where
  "intercept_char c = (is_digit c \<or> c = CHR ''.'' \<or> c = CHR ''-'')"

text \<open>A literal character of the pattern: the rest of the input when it is there.\<close>

fun lit :: "char \<Rightarrow> string \<Rightarrow> string option" where
  "lit c [] = None"
| "lit c (d # s) = (if c = d then Some s else None)"

text \<open>
  The match that starts at the head of the input, with the two groups. Every starred class
  of the pattern is disjoint from what has to follow it (\<^verbatim>\<open>\s*\<close> is followed by
  \<open>=\<close>, a slope character, \<open>*\<close> or \<open>x\<close>; the slope group by \<^verbatim>\<open>\s*\*\<close>), and
  everything after \<open>x\<close> is optional, so the backtracking matcher's first path, taking
  each class as far as it goes, is the only one that can succeed.
\<close>

definition match_here :: "string \<Rightarrow> (string \<times> string) option" where
  "match_here s =
     (case lit CHR ''y'' s of
        None \<Rightarrow> None
      | Some s1 \<Rightarrow>
     (case lit CHR ''='' (dropWhile is_space s1) of
        None \<Rightarrow> None
      | Some s2 \<Rightarrow>
          let s3 = dropWhile is_space s2;
              group1 = takeWhile slope_char s3;
              s4 = dropWhile slope_char s3
          in if group1 = [] then None
             else
     (case lit CHR ''*'' (dropWhile is_space s4) of
        None \<Rightarrow> None
      | Some s5 \<Rightarrow>
     (case lit CHR ''x'' (dropWhile is_space s5) of
        None \<Rightarrow> None
      | Some s6 \<Rightarrow>
          let s7 = dropWhile is_space s6;
              s8 = (case lit CHR ''+'' s7 of Some t \<Rightarrow> t | None \<Rightarrow> s7);
              s9 = dropWhile is_space s8
          in Some (group1, takeWhile intercept_char s9)))))"

text \<open>\<^verbatim>\<open>re.search\<close>: the match at the leftmost position that has one.\<close>

fun re_search :: "string \<Rightarrow> (string \<times> string) option" where
  "re_search [] = match_here []"
| "re_search (c # s) =
     (case match_here (c # s) of
        Some m \<Rightarrow> Some m
      | None \<Rightarrow> re_search s)"

subsection \<open>\<^verbatim>\<open>float()\<close> on a captured group\<close>

text \<open>
  Python's \<^verbatim>\<open>float\<close> on a string of digits, dots and minus signs, which is all a group
  can hold (\<open>re_search_groups\<close> below): an optional leading minus, then digits with at most
  one dot and at least one digit; ValueError otherwise. The value is the decimal number.
\<close>

definition digit_val :: "char \<Rightarrow> nat" where
  "digit_val c = of_char c - 48"

definition digits_val :: "string \<Rightarrow> nat" where
  "digits_val s = fold (\<lambda>c n. 10 * n + digit_val c) s 0"

definition float_unsigned :: "string \<Rightarrow> error + real" where
  "float_unsigned s =
     (let int_part = takeWhile is_digit s; rest = dropWhile is_digit s
      in case rest of
           [] \<Rightarrow> if int_part = [] then Inl ValueError else Inr (real (digits_val int_part))
         | c # frac_part \<Rightarrow>
             if c = CHR ''.'' \<and> list_all is_digit frac_part \<and> \<not> (int_part = [] \<and> frac_part = [])
             then Inr (real (digits_val int_part)
                         + real (digits_val frac_part) / 10 ^ length frac_part)
             else Inl ValueError)"

definition py_float :: "string \<Rightarrow> error + real" where
  "py_float s =
     (case s of
        [] \<Rightarrow> Inl ValueError
      | c # t \<Rightarrow>
          if c = CHR ''-'' then
            (case float_unsigned t of Inl e \<Rightarrow> Inl e | Inr v \<Rightarrow> Inr (- v))
          else float_unsigned s)"

subsection \<open>\<^verbatim>\<open>parse_sota_override\<close>\<close>

text \<open>
  \<^verbatim>\<open>
  def parse_sota_override(df):
      formula = df["SOTA Override"].dropna()
      if not formula.empty:
          match = re.search(r"...", formula.values[0])
          if match:
              slope = float(match.group(1))
              intercept = float(match.group(2)) if match.group(2) else 0
              return lambda x: slope * x + intercept
      return None
  \<close>
  \<open>parse_formula\<close> is the body of the inner \<^verbatim>\<open>if\<close>'s: the pair of slope and intercept
  from which the function is built, \<open>None\<close> when the pattern does not match.
\<close>

definition parse_formula :: "string \<Rightarrow> error + (real \<times> real) option" where
  "parse_formula s =
     (case re_search s of
        None \<Rightarrow> Inr None
      | Some (group1, group2) \<Rightarrow>
          (case py_float group1 of
             Inl e \<Rightarrow> Inl e
           | Inr slope \<Rightarrow>
               (case (if group2 \<noteq> [] then py_float group2 else Inr 0) of
                  Inl e \<Rightarrow> Inl e
                | Inr intercept \<Rightarrow> Inr (Some (slope, intercept)))))"

definition linear_function :: "real \<Rightarrow> real \<Rightarrow> reference_function" where
  "linear_function slope intercept = (\<lambda>x. map (\<lambda>xi. Some (slope * xi + intercept)) x)"

definition parse_sota_override :: "dataframe \<Rightarrow> error + reference_function option" where
  "parse_sota_override df =
     (case column df ''SOTA Override'' SOTA_Override of
        Inl e \<Rightarrow> Inl e
      | Inr s \<Rightarrow>
          (case dropna s of
             [] \<Rightarrow> Inr None
           | formula # _ \<Rightarrow>
               (case parse_formula formula of
                  Inl e \<Rightarrow> Inl e
                | Inr None \<Rightarrow> Inr None
                | Inr (Some (slope, intercept)) \<Rightarrow>
                    Inr (Some (linear_function slope intercept)))))"

subsection \<open>\<^verbatim>\<open>compute_sota_auto\<close>\<close>

text \<open>
  \<^verbatim>\<open>
  def compute_sota_auto(df):
      df_comp = df[df['ID'].str.startswith("COMP")]
      if df_comp.empty:
          return lambda x: np.full_like(x, fill_value=0)
      if len(df_comp) == 1:
          y_val = df_comp["Y FOM"].values[0]
          return lambda x: np.full_like(x, fill_value=y_val)
      def linear(x, a, b):
          return a * x + b
      x = df_comp["X FOM"].values
      y = df_comp["Y FOM"].values
      params, _ = curve_fit(linear, x, y)
      return lambda x: params[0] * x + params[1]
  \<close>
  \<^verbatim>\<open>scipy.optimize.curve_fit\<close> is a library routine, not code of this program: it is a
  parameter of the embedding, given the model function and the two data arrays and
  answering the two fitted parameters or an exception.
\<close>

type_synonym curve_fit_routine =
  "(real \<Rightarrow> real \<Rightarrow> real \<Rightarrow> real) \<Rightarrow> flt list \<Rightarrow> flt list \<Rightarrow> error + (real \<times> real)"

definition linear :: "real \<Rightarrow> real \<Rightarrow> real \<Rightarrow> real" where
  "linear x a b = a * x + b"

definition full_like :: "real list \<Rightarrow> flt \<Rightarrow> flt list" where
  "full_like x fill_value = map (\<lambda>_. fill_value) x"

definition compute_sota_auto :: "curve_fit_routine \<Rightarrow> dataframe \<Rightarrow> error + reference_function" where
  "compute_sota_auto curve_fit df =
     (case select_prefix df ''COMP'' of
        Inl e \<Rightarrow> Inl e
      | Inr df_comp \<Rightarrow>
          if rows df_comp = [] then Inr (\<lambda>x. full_like x (Some 0))
          else if length (rows df_comp) = 1 then
            (case column df_comp ''Y FOM'' Y_FOM of
               Inl e \<Rightarrow> Inl e
             | Inr ys \<Rightarrow>
                 (case values0 ys of
                    Inl e \<Rightarrow> Inl e
                  | Inr y_val \<Rightarrow> Inr (\<lambda>x. full_like x y_val)))
          else
            (case column df_comp ''X FOM'' X_FOM of
               Inl e \<Rightarrow> Inl e
             | Inr x \<Rightarrow>
            (case column df_comp ''Y FOM'' Y_FOM of
               Inl e \<Rightarrow> Inl e
             | Inr y \<Rightarrow>
            (case curve_fit linear x y of
               Inl e \<Rightarrow> Inl e
             | Inr params \<Rightarrow> Inr (linear_function (fst params) (snd params))))))"

text \<open>
  \<^verbatim>\<open>sota_fn = parse_sota_override(df) or compute_sota_auto(df)\<close>: a function is truthy,
  \<^verbatim>\<open>None\<close> is not.
\<close>

definition sota_fn :: "curve_fit_routine \<Rightarrow> dataframe \<Rightarrow> error + reference_function" where
  "sota_fn curve_fit df =
     (case parse_sota_override df of
        Inl e \<Rightarrow> Inl e
      | Inr (Some f) \<Rightarrow> Inr f
      | Inr None \<Rightarrow> compute_sota_auto curve_fit df)"

section \<open>Renderer\<close>

text \<open>
  What \<^verbatim>\<open>plot_fom\<close> hands to matplotlib: the two scatter series, the text annotations,
  the sampled reference line and the labels. The figure is the result of the embedding.
\<close>

record figure =
  competitor_points :: "(flt \<times> flt) list"
  competitor_texts :: "(flt \<times> flt \<times> string) list"
  product_points :: "(flt \<times> flt) list"
  product_texts :: "(flt \<times> flt \<times> string) list"
  sota_line :: "(real list \<times> flt list) option"
  xlabel :: string
  ylabel :: string
  title :: string

text \<open>\<^verbatim>\<open>str(row["Label"])\<close>: a missing label prints as \<^verbatim>\<open>nan\<close>.\<close>

definition py_str :: "string option \<Rightarrow> string" where
  "py_str v = (case v of None \<Rightarrow> ''nan'' | Some s \<Rightarrow> s)"

text \<open>\<^verbatim>\<open>row[name]\<close> inside \<^verbatim>\<open>iterrows\<close>: KeyError when the frame has no such column.\<close>

definition row_item :: "dataframe \<Rightarrow> string \<Rightarrow> (row \<Rightarrow> 'a) \<Rightarrow> row \<Rightarrow> error + 'a" where
  "row_item df name field r =
     (if name \<in> set (columns df) then Inr (field r) else Inl (KeyError name))"

text \<open>
  \<^verbatim>\<open>
  for _, row in competitors.iterrows():
      plt.text(row["X FOM"], row["Y FOM"], str(row["Label"]), ...)
  \<close>
\<close>

fun annotate :: "dataframe \<Rightarrow> row list \<Rightarrow> error + (flt \<times> flt \<times> string) list" where
  "annotate df [] = Inr []"
| "annotate df (r # rs) =
     (case row_item df ''X FOM'' X_FOM r of
        Inl e \<Rightarrow> Inl e
      | Inr x \<Rightarrow>
     (case row_item df ''Y FOM'' Y_FOM r of
        Inl e \<Rightarrow> Inl e
      | Inr y \<Rightarrow>
     (case row_item df ''Label'' Label r of
        Inl e \<Rightarrow> Inl e
      | Inr l \<Rightarrow>
     (case annotate df rs of
        Inl e \<Rightarrow> Inl e
      | Inr ts \<Rightarrow> Inr ((x, y, py_str l) # ts)))))"

text \<open>\<^verbatim>\<open>plt.scatter(d["X FOM"], d["Y FOM"], ...)\<close>\<close>

definition scatter :: "dataframe \<Rightarrow> error + (flt \<times> flt) list" where
  "scatter d =
     (case column d ''X FOM'' X_FOM of
        Inl e \<Rightarrow> Inl e
      | Inr xs \<Rightarrow>
     (case column d ''Y FOM'' Y_FOM of
        Inl e \<Rightarrow> Inl e
      | Inr ys \<Rightarrow> Inr (zip xs ys)))"

text \<open>
  \<^verbatim>\<open>series.min()\<close> and \<^verbatim>\<open>series.max()\<close> skip the missing values and answer NaN when
  nothing is left.
\<close>

definition series_min :: "flt list \<Rightarrow> flt" where
  "series_min s = (case dropna s of [] \<Rightarrow> None | v # vs \<Rightarrow> Some (fold min vs v))"

definition series_max :: "flt list \<Rightarrow> flt" where
  "series_max s = (case dropna s of [] \<Rightarrow> None | v # vs \<Rightarrow> Some (fold max vs v))"

text \<open>
  \<^verbatim>\<open>np.log10\<close>: finite on positive numbers only. At zero numpy answers \<open>-inf\<close>, below
  zero and at NaN it answers NaN, with a warning and no exception; \<open>None\<close> stands for
  these answers, which the embedding does not follow further.
\<close>

definition np_log10 :: "flt \<Rightarrow> real option" where
  "np_log10 v = (case v of None \<Rightarrow> None | Some x \<Rightarrow> if 0 < x then Some (log 10 x) else None)"

text \<open>
  \<^verbatim>\<open>np.linspace(start, stop, num)\<close> for \<open>num > 1\<close>: the multiples of the step
  \<open>(stop - start) / (num - 1)\<close> added to \<open>start\<close>, and the last sample set to \<open>stop\<close>.
  \<^verbatim>\<open>np.logspace\<close> is ten to the power of these.
\<close>

definition np_linspace :: "real \<Rightarrow> real \<Rightarrow> nat \<Rightarrow> real list" where
  "np_linspace start stop num =
     (map (\<lambda>i. real i * ((stop - start) / real (num - 1)) + start) [0..<num])[num - 1 := stop]"

definition np_logspace :: "real \<Rightarrow> real \<Rightarrow> nat \<Rightarrow> real list" where
  "np_logspace start stop num = map (\<lambda>y. 10 powr y) (np_linspace start stop num)"

text \<open>
  \<^verbatim>\<open>x_vals = np.logspace(np.log10(df["X FOM"].min()), np.log10(df["X FOM"].max()), 100)\<close>;
  \<open>None\<close> when an exponent is not finite.
\<close>

definition x_vals :: "flt list \<Rightarrow> real list option" where
  "x_vals xs =
     (case np_log10 (series_min xs) of
        None \<Rightarrow> None
      | Some lo \<Rightarrow>
          (case np_log10 (series_max xs) of
             None \<Rightarrow> None
           | Some hi \<Rightarrow> Some (np_logspace lo hi 100)))"

text \<open>
  \<^verbatim>\<open>
  def plot_fom(df, sota_fn):
      chart_title, x_label, y_label = get_chart_metadata(df)
      products = df[df["ID"].str.startswith("PROD")]
      competitors = df[df["ID"].str.startswith("COMP")]
      plt.scatter(competitors["X FOM"], competitors["Y FOM"], ...)
      for _, row in competitors.iterrows(): plt.text(...)
      plt.scatter(products["X FOM"], products["Y FOM"], ...)
      for _, row in products.iterrows(): plt.text(...)
      x_vals = np.logspace(...)
      plt.plot(x_vals, sota_fn(x_vals), '--', ...)
      plt.xlabel(f"{x_label} (log scale)"); plt.ylabel(y_label); plt.title(chart_title)
  \<close>
\<close>

definition plot_fom :: "dataframe \<Rightarrow> reference_function \<Rightarrow> error + figure" where
  "plot_fom df sota =
     (case get_chart_metadata df of
        Inl e \<Rightarrow> Inl e
      | Inr (chart_title, x_label, y_label) \<Rightarrow>
     (case select_prefix df ''PROD'' of
        Inl e \<Rightarrow> Inl e
      | Inr products \<Rightarrow>
     (case select_prefix df ''COMP'' of
        Inl e \<Rightarrow> Inl e
      | Inr competitors \<Rightarrow>
     (case scatter competitors of
        Inl e \<Rightarrow> Inl e
      | Inr cpoints \<Rightarrow>
     (case annotate competitors (rows competitors) of
        Inl e \<Rightarrow> Inl e
      | Inr ctexts \<Rightarrow>
     (case scatter products of
        Inl e \<Rightarrow> Inl e
      | Inr ppoints \<Rightarrow>
     (case annotate products (rows products) of
        Inl e \<Rightarrow> Inl e
      | Inr ptexts \<Rightarrow>
     (case column df ''X FOM'' X_FOM of
        Inl e \<Rightarrow> Inl e
      | Inr xs \<Rightarrow>
          Inr \<lparr>competitor_points = cpoints, competitor_texts = ctexts,
               product_points = ppoints, product_texts = ptexts,
               sota_line = map_option (\<lambda>xv. (xv, sota xv)) (x_vals xs),
               xlabel = x_label @ '' (log scale)'', ylabel = y_label,
               title = chart_title\<rparr>))))))))"

section \<open>Main program\<close>

text \<open>
  \<^verbatim>\<open>select_file\<close> exits with status 1 when the dialogue answers no path; the argument is
  the dialogue's answer. \<open>read_excel\<close> is what reading the chosen path gives.
\<close>

definition select_file :: "string \<Rightarrow> error + string" where
  "select_file file_path = (if file_path = [] then Inl (SystemExit 1) else Inr file_path)"

definition main ::
  "curve_fit_routine \<Rightarrow> string \<Rightarrow> (string \<Rightarrow> error + dataframe) \<Rightarrow> error + figure" where
  "main curve_fit answer read_excel =
     (case select_file answer of
        Inl e \<Rightarrow> Inl e
      | Inr file_path \<Rightarrow>
     (case load_fom_data (read_excel file_path) of
        Inl e \<Rightarrow> Inl e
      | Inr df \<Rightarrow>
     (case sota_fn curve_fit df of
        Inl e \<Rightarrow> Inl e
      | Inr f \<Rightarrow> plot_fom df f)))"

section \<open>Example sheets\<close>

definition fom_row :: "string \<Rightarrow> string \<Rightarrow> flt \<Rightarrow> flt \<Rightarrow> row" where
  "fom_row i l x y =
     \<lparr>ID = i, Label = Some l, X_FOM = x, Y_FOM = y, Chart_Title = None,
      X_FOM_Name = None, Y_FOM_Name = None, SOTA_Override = None\<rparr>"

text \<open>The sheet of the specification's end-to-end example, with all the optional columns.\<close>

definition all_columns :: "string list" where
  "all_columns = [''ID'', ''Label'', ''X FOM'', ''Y FOM'', ''Chart Title'', ''X FOM Name'',
                  ''Y FOM Name'', ''SOTA Override'']"

definition example_rows :: "row list" where
  "example_rows = [fom_row ''COMP1'' ''A'' (Some 1) (Some 10),
                   fom_row ''COMP2'' ''B'' (Some 2) (Some 20),
                   fom_row ''PROD1'' ''P'' (Some 5) (Some 1)]"

definition example_sheet :: dataframe where
  "example_sheet = \<lparr>columns = all_columns, rows = example_rows\<rparr>"

text \<open>A sheet whose first row carries the override formula \<open>s\<close>.\<close>

definition override_sheet :: "string \<Rightarrow> dataframe" where
  "override_sheet s =
     \<lparr>columns = all_columns,
      rows = [(fom_row ''COMP1'' ''A'' (Some 1) (Some 10))\<lparr>SOTA_Override := Some s\<rparr>,
              fom_row ''PROD1'' ''P'' (Some 5) (Some 1)]\<rparr>"

text \<open>A sheet as read, before the loader: two of its four rows miss a FOM value.\<close>

definition raw_sheet :: dataframe where
  "raw_sheet =
     \<lparr>columns = all_columns,
      rows = [fom_row ''COMP1'' ''A'' (Some 1) (Some 10),
              fom_row ''COMP2'' ''B'' None (Some 20),
              fom_row ''PROD1'' ''P'' (Some 5) (Some 1),
              fom_row ''PROD2'' ''Q'' (Some 7) None]\<rparr>"

text \<open>A sheet with a title in its second and third rows and no column for the y-axis name.\<close>

definition titled_sheet :: dataframe where
  "titled_sheet =
     \<lparr>columns = [''ID'', ''Label'', ''X FOM'', ''Y FOM'', ''Chart Title'', ''X FOM Name''],
      rows = [fom_row ''COMP1'' ''A'' (Some 1) (Some 10),
              (fom_row ''PROD1'' ''P'' (Some 5) (Some 1))\<lparr>Chart_Title := Some ''Gain''\<rparr>,
              (fom_row ''PROD2'' ''Q'' (Some 6) (Some 2))\<lparr>Chart_Title := Some ''Other''\<rparr>]\<rparr>"

text \<open>Sheets with no competitor and with one competitor.\<close>

definition products_only :: dataframe where
  "products_only =
     \<lparr>columns = all_columns,
      rows = [fom_row ''PROD1'' ''P'' (Some 5) (Some 1),
              fom_row ''PROD2'' ''Q'' (Some 7) (Some 3)]\<rparr>"

definition one_competitor :: dataframe where
  "one_competitor =
     \<lparr>columns = all_columns,
      rows = [fom_row ''PROD1'' ''P'' (Some 5) (Some 1),
              fom_row ''COMP1'' ''A'' (Some 2) (Some 7)]\<rparr>"

text \<open>The example rows in a sheet that has the four required columns only.\<close>

definition required_only :: dataframe where
  "required_only = \<lparr>columns = [''ID'', ''Label'', ''X FOM'', ''Y FOM''], rows = example_rows\<rparr>"

text \<open>A fitting routine that always fails, for the inputs on which it is never called.\<close>

definition no_fit :: curve_fit_routine where
  "no_fit f x y = Inl RuntimeError"

section \<open>Properties of the Data Loader\<close>

lemma length_filter_split:
  "length (filter (\<lambda>r. \<not> P r) xs) + length (filter P xs) = length xs"
  by (induction xs) auto

text \<open>
  Claim C7. On a sheet that was read and has the two FOM columns, the loader returns a
  frame in which every row has both FOM values; its rows are exactly the rows of the sheet
  that have both values, in the sheet's order, so the row count goes down by the number of
  rows that miss a value; the columns are unchanged.
\<close>

theorem load_fom_data_drops_null_rows:
  assumes "''X FOM'' \<in> set (columns df)" and "''Y FOM'' \<in> set (columns df)"
  shows "\<exists>df'. load_fom_data (Inr df) = Inr df'
           \<and> (\<forall>r \<in> set (rows df'). X_FOM r \<noteq> None \<and> Y_FOM r \<noteq> None)
           \<and> rows df' = filter (\<lambda>r. \<not> (X_FOM r = None \<or> Y_FOM r = None)) (rows df)
           \<and> length (rows df')
                + length (filter (\<lambda>r. X_FOM r = None \<or> Y_FOM r = None) (rows df))
               = length (rows df)
           \<and> columns df' = columns df"
proof -
  let ?df' = "df\<lparr>rows := filter (\<lambda>r. \<not> isna_fom r) (rows df)\<rparr>"
  have l: "load_fom_data (Inr df) = Inr ?df'"
    using assms by (simp add: load_fom_data_def dropna_fom_def)
  have n: "length (rows ?df')
             + length (filter (\<lambda>r. X_FOM r = None \<or> Y_FOM r = None) (rows df))
            = length (rows df)"
    using length_filter_split [of "\<lambda>r. X_FOM r = None \<or> Y_FOM r = None" "rows df"]
    by (simp add: isna_fom_def)
  show ?thesis
    unfolding l using n by (auto simp: isna_fom_def)
qed

theorem load_fom_data_drops_null_rows_witness:
  "''X FOM'' \<in> set (columns raw_sheet) \<and> ''Y FOM'' \<in> set (columns raw_sheet)
   \<and> load_fom_data (Inr raw_sheet)
       = Inr \<lparr>columns = all_columns,
              rows = [fom_row ''COMP1'' ''A'' (Some 1) (Some 10),
                      fom_row ''PROD1'' ''P'' (Some 5) (Some 1)]\<rparr>
   \<and> length (filter (\<lambda>r. X_FOM r = None \<or> Y_FOM r = None) (rows raw_sheet)) = 2"
  using load_fom_data_drops_null_rows [of raw_sheet]
  by (simp add: raw_sheet_def all_columns_def fom_row_def load_fom_data_def dropna_fom_def
      isna_fom_def)

text \<open>A sheet that cannot be read, or that lacks a FOM column, ends the program.\<close>

lemma load_fom_data_exit:
  "load_fom_data (Inl e) = Inl (SystemExit 1)"
  "''X FOM'' \<notin> set (columns df) \<or> ''Y FOM'' \<notin> set (columns df)
     \<Longrightarrow> load_fom_data (Inr df) = Inl (SystemExit 1)"
  by (auto simp: load_fom_data_def dropna_fom_def)

section \<open>Properties of the Metadata Extractor\<close>

lemma dropna_find:
  "(case dropna s of [] \<Rightarrow> d | v # _ \<Rightarrow> v)
     = (case find (\<lambda>c. c \<noteq> None) s of Some (Some v) \<Rightarrow> v | _ \<Rightarrow> d)"
proof (induction s)
  case Nil
  show ?case by simp
next
  case (Cons c s)
  then show ?case by (cases c) simp_all
qed

lemma metadata_value_first_nonempty:
  "metadata_value df name field dflt = Inr (first_nonempty_or df name field dflt)"
proof (cases "name \<in> set (columns df)")
  case False
  then show ?thesis by (simp add: metadata_value_def first_nonempty_or_def)
next
  case True
  show ?thesis
  proof (cases "dropna (map field (rows df))")
    case Nil
    with True dropna_find [of dflt "map field (rows df)"] show ?thesis
      by (simp add: metadata_value_def first_nonempty_or_def column_def)
  next
    case (Cons v vs)
    with True dropna_find [of dflt "map field (rows df)"] show ?thesis
      by (simp add: metadata_value_def first_nonempty_or_def column_def values0_def)
  qed
qed

text \<open>
  Claim C8. The extractor never raises: on every frame it returns the three strings, and
  each is the first non-empty value of its column when the column exists and has one, and
  the fixed default otherwise.
\<close>

theorem get_chart_metadata_total:
  "get_chart_metadata df =
     Inr (first_nonempty_or df ''Chart Title'' Chart_Title ''Figure of Merit (FOM) Scatter Plot'',
          first_nonempty_or df ''X FOM Name'' X_FOM_Name ''X FOM'',
          first_nonempty_or df ''Y FOM Name'' Y_FOM_Name ''Y FOM'')"
  by (simp add: get_chart_metadata_def metadata_value_first_nonempty)

theorem get_chart_metadata_total_witness:
  "get_chart_metadata titled_sheet = Inr (''Gain'', ''X FOM'', ''Y FOM'')"
  using get_chart_metadata_total [of titled_sheet]
  by (simp add: first_nonempty_or_def titled_sheet_def fom_row_def)

section \<open>Properties of the Reference-Line Resolver\<close>

subsection \<open>The automatic line without a fit\<close>

lemma full_like_replicate: "full_like x v = replicate (length x) v"
  by (simp add: full_like_def map_replicate_const)

text \<open>
  Claim C2. On a frame with an \<open>ID\<close> column and no row whose ID starts with \<open>COMP\<close>,
  when no override applies, the resolver returns a function, not an error, and the
  function answers 0 at every sample of every input array.
\<close>

theorem no_competitors_constant_zero:
  assumes "''ID'' \<in> set (columns df)"
    and "filter (\<lambda>r. startswith (ID r) ''COMP'') (rows df) = []"
    and "parse_sota_override df = Inr None"
  shows "\<exists>f. sota_fn curve_fit df = Inr f \<and> (\<forall>x. f x = replicate (length x) (Some 0))"
proof -
  have "compute_sota_auto curve_fit df = Inr (\<lambda>x. full_like x (Some 0))"
    using assms(1,2) by (simp add: compute_sota_auto_def select_prefix_def column_def)
  then show ?thesis
    using assms(3) by (simp add: sota_fn_def full_like_replicate)
qed

theorem no_competitors_constant_zero_witness:
  "''ID'' \<in> set (columns products_only)
   \<and> filter (\<lambda>r. startswith (ID r) ''COMP'') (rows products_only) = []
   \<and> parse_sota_override products_only = Inr None
   \<and> (\<exists>f. sota_fn no_fit products_only = Inr f \<and> f [1, 10, 100] = [Some 0, Some 0, Some 0])"
proof -
  have a: "''ID'' \<in> set (columns products_only)"
    by (simp add: products_only_def all_columns_def)
  have b: "filter (\<lambda>r. startswith (ID r) ''COMP'') (rows products_only) = []"
    by (simp add: products_only_def fom_row_def startswith_def)
  have c: "parse_sota_override products_only = Inr None"
    by (simp add: parse_sota_override_def column_def products_only_def all_columns_def
        fom_row_def)
  obtain f where f: "sota_fn no_fit products_only = Inr f"
    "\<forall>x. f x = replicate (length x) (Some 0)"
    using no_competitors_constant_zero [OF a b c] by blast
  from f(2) have "f [1, 10, 100] = [Some 0, Some 0, Some 0]"
    by (simp add: numeral_3_eq_3)
  with a b c f(1) show ?thesis by blast
qed

text \<open>
  Claim C3. On a frame with exactly one row whose ID starts with \<open>COMP\<close>, that row's
  \<open>Y FOM\<close> being \<open>v\<close>, when no override applies, the resolver returns a function that
  answers \<open>v\<close> at every sample of every input array.
\<close>

theorem one_competitor_constant:
  assumes "''ID'' \<in> set (columns df)" and "''Y FOM'' \<in> set (columns df)"
    and "filter (\<lambda>r. startswith (ID r) ''COMP'') (rows df) = [r]"
    and "Y_FOM r = Some v"
    and "parse_sota_override df = Inr None"
  shows "\<exists>f. sota_fn curve_fit df = Inr f \<and> (\<forall>x. f x = replicate (length x) (Some v))"
proof -
  have "compute_sota_auto curve_fit df = Inr (\<lambda>x. full_like x (Some v))"
    using assms(1-4)
    by (simp add: compute_sota_auto_def select_prefix_def column_def values0_def)
  then show ?thesis
    using assms(5) by (simp add: sota_fn_def full_like_replicate)
qed

theorem one_competitor_constant_witness:
  "''ID'' \<in> set (columns one_competitor) \<and> ''Y FOM'' \<in> set (columns one_competitor)
   \<and> filter (\<lambda>r. startswith (ID r) ''COMP'') (rows one_competitor)
       = [fom_row ''COMP1'' ''A'' (Some 2) (Some 7)]
   \<and> Y_FOM (fom_row ''COMP1'' ''A'' (Some 2) (Some 7)) = Some 7
   \<and> parse_sota_override one_competitor = Inr None
   \<and> (\<exists>f. sota_fn no_fit one_competitor = Inr f \<and> f [1, 10, 100] = [Some 7, Some 7, Some 7])"
proof -
  let ?r = "fom_row ''COMP1'' ''A'' (Some 2) (Some 7)"
  have a: "''ID'' \<in> set (columns one_competitor)" "''Y FOM'' \<in> set (columns one_competitor)"
    by (simp_all add: one_competitor_def all_columns_def)
  have b: "filter (\<lambda>r. startswith (ID r) ''COMP'') (rows one_competitor) = [?r]"
    by (simp add: one_competitor_def fom_row_def startswith_def)
  have c: "Y_FOM ?r = Some 7"
    by (simp add: fom_row_def)
  have d: "parse_sota_override one_competitor = Inr None"
    by (simp add: parse_sota_override_def column_def one_competitor_def all_columns_def fom_row_def)
  obtain f where f: "sota_fn no_fit one_competitor = Inr f"
    "\<forall>x. f x = replicate (length x) (Some 7)"
    using one_competitor_constant [OF a b c d] by blast
  from f(2) have "f [1, 10, 100] = [Some 7, Some 7, Some 7]"
    by (simp add: numeral_3_eq_3)
  with a b c d f(1) show ?thesis by blast
qed

subsection \<open>The override parser\<close>

lemmas parse_ev = parse_formula_def match_here_def
  is_space_def is_digit_def slope_char_def intercept_char_def
  py_float_def float_unsigned_def digits_val_def digit_val_def Let_def

text \<open>The parser on a frame is the formula parser on the first value of the column.\<close>

lemma parse_sota_override_first:
  assumes "''SOTA Override'' \<in> set (columns df)"
    and "dropna (map SOTA_Override (rows df)) = s # rest"
  shows "parse_sota_override df =
           (case parse_formula s of
              Inl e \<Rightarrow> Inl e
            | Inr None \<Rightarrow> Inr None
            | Inr (Some (slope, intercept)) \<Rightarrow> Inr (Some (linear_function slope intercept)))"
  using assms by (simp add: parse_sota_override_def column_def)

lemma override_sheet_first:
  "''SOTA Override'' \<in> set (columns (override_sheet s))"
  "dropna (map SOTA_Override (rows (override_sheet s))) = [s]"
  by (simp_all add: override_sheet_def all_columns_def fom_row_def)

text \<open>
  The groups that \<open>re_search\<close> captures hold slope characters and intercept characters
  only, and the first is not empty: \<open>py_float\<close> is never asked about anything else.
\<close>

lemma takeWhile_list_all: "list_all P (takeWhile P s)"
  by (induction s) auto

lemma match_here_groups:
  assumes "match_here s = Some (g1, g2)"
  shows "g1 \<noteq> [] \<and> list_all slope_char g1 \<and> list_all intercept_char g2"
  using assms
  by (auto simp: match_here_def Let_def takeWhile_list_all split: option.splits if_splits)

lemma re_search_groups:
  assumes "re_search s = Some (g1, g2)"
  shows "g1 \<noteq> [] \<and> list_all slope_char g1 \<and> list_all intercept_char g2"
  using assms
proof (induction s)
  case Nil
  then show ?case using match_here_groups by simp
next
  case (Cons c s)
  then show ?case using match_here_groups [of "c # s" g1 g2]
    by (auto split: option.splits)
qed

text \<open>
  Claim C4. When the first value of the override column is \<open>y = 1.5 * x + 2\<close> the parser
  returns the linear function of slope 1.5 and intercept 2, and when it is \<open>y = 1.5 * x\<close>
  the linear function of slope 1.5 and intercept 0.
\<close>

theorem parse_sota_override_spec_examples:
  assumes "''SOTA Override'' \<in> set (columns df)"
  shows "(dropna (map SOTA_Override (rows df)) = ''y = 1.5 * x + 2'' # rest
            \<longrightarrow> (\<exists>f. parse_sota_override df = Inr (Some f)
                  \<and> (\<forall>x. f x = map (\<lambda>xi. Some (1.5 * xi + 2)) x)))
       \<and> (dropna (map SOTA_Override (rows df)) = ''y = 1.5 * x'' # rest
            \<longrightarrow> (\<exists>f. parse_sota_override df = Inr (Some f)
                  \<and> (\<forall>x. f x = map (\<lambda>xi. Some (1.5 * xi + 0)) x)))"
proof -
  have a: "parse_formula ''y = 1.5 * x + 2'' = Inr (Some (1.5, 2))"
    by (simp add: parse_ev)
  have b: "parse_formula ''y = 1.5 * x'' = Inr (Some (1.5, 0))"
    by (simp add: parse_ev)
  show ?thesis
    using assms a b by (auto simp: parse_sota_override_first linear_function_def)
qed

theorem parse_sota_override_spec_examples_witness:
  "''SOTA Override'' \<in> set (columns (override_sheet ''y = 1.5 * x + 2''))
   \<and> dropna (map SOTA_Override (rows (override_sheet ''y = 1.5 * x + 2''))) = [''y = 1.5 * x + 2'']
   \<and> (\<exists>f. parse_sota_override (override_sheet ''y = 1.5 * x + 2'') = Inr (Some f)
          \<and> f [0, 2] = [Some 2, Some 5])"
proof -
  let ?df = "override_sheet ''y = 1.5 * x + 2''"
  have a: "''SOTA Override'' \<in> set (columns ?df)"
    and b: "dropna (map SOTA_Override (rows ?df)) = ''y = 1.5 * x + 2'' # []"
    by (simp_all add: override_sheet_first)
  obtain f where f: "parse_sota_override ?df = Inr (Some f)"
    "\<forall>x. f x = map (\<lambda>xi. Some (1.5 * xi + 2)) x"
    using parse_sota_override_spec_examples [OF a, of "[]"] b by blast
  from f(2) have "f [0, 2] = [Some 2, Some 5]" by simp
  with a b f(1) show ?thesis by blast
qed

text \<open>
  Claim C6, at the claim's own example. A minus sign that is separated from its digits by
  white space is captured alone, and \<^verbatim>\<open>float("-")\<close> raises ValueError: the parser does not
  accept \<open>y = 2 * x - 3\<close>. With a plus sign the same spacing is accepted, and so is the
  minus sign written against its digits.
\<close>

theorem parse_sota_override_spaced_minus:
  "parse_sota_override (override_sheet ''y = 2 * x - 3'') = Inl ValueError
   \<and> parse_sota_override (override_sheet ''y = 2 * x + 3'') = Inr (Some (linear_function 2 3))
   \<and> parse_sota_override (override_sheet ''y = 2 * x -3'') = Inr (Some (linear_function 2 (- 3)))"
proof -
  have a: "parse_formula ''y = 2 * x - 3'' = Inl ValueError" by (simp add: parse_ev)
  have b: "parse_formula ''y = 2 * x + 3'' = Inr (Some (2, 3))" by (simp add: parse_ev)
  have c: "parse_formula ''y = 2 * x -3'' = Inr (Some (2, - 3))" by (simp add: parse_ev)
  show ?thesis
    by (simp add: parse_sota_override_first [OF override_sheet_first] a b c)
qed

text \<open>
  Claim C10. There are override strings on which the resolver raises: for
  \<open>y = 2 * x - 3\<close> the intercept group is the lone minus sign, for \<open>y = 1..2 * x\<close> the
  slope group is \<open>1..2\<close>, and \<^verbatim>\<open>float\<close> fails on both; the ValueError leaves the resolver
  before the automatic fit is tried.
\<close>

theorem override_parser_raises:
  "re_search ''y = 2 * x - 3'' = Some (''2'', ''-'')
   \<and> py_float ''-'' = Inl ValueError
   \<and> sota_fn curve_fit (override_sheet ''y = 2 * x - 3'') = Inl ValueError
   \<and> re_search ''y = 1..2 * x'' = Some (''1..2'', [])
   \<and> py_float ''1..2'' = Inl ValueError
   \<and> sota_fn curve_fit (override_sheet ''y = 1..2 * x'') = Inl ValueError"
proof -
  have a: "re_search ''y = 2 * x - 3'' = Some (''2'', ''-'')" by (simp add: parse_ev)
  have b: "py_float ''-'' = Inl ValueError" by (simp add: parse_ev)
  have c: "re_search ''y = 1..2 * x'' = Some (''1..2'', [])" by (simp add: parse_ev)
  have d: "py_float ''1..2'' = Inl ValueError" by (simp add: parse_ev)
  have e: "parse_formula ''y = 2 * x - 3'' = Inl ValueError"
    unfolding parse_formula_def a by (simp add: parse_ev)
  have f: "parse_formula ''y = 1..2 * x'' = Inl ValueError"
    unfolding parse_formula_def c by (simp add: d)
  have g: "sota_fn curve_fit (override_sheet ''y = 2 * x - 3'') = Inl ValueError"
    by (simp add: sota_fn_def parse_sota_override_first [OF override_sheet_first] e)
  have h: "sota_fn curve_fit (override_sheet ''y = 1..2 * x'') = Inl ValueError"
    by (simp add: sota_fn_def parse_sota_override_first [OF override_sheet_first] f)
  from a b c d g h show ?thesis by blast
qed

text \<open>
  Claim C5, where it fails. On a sheet without the optional \<open>SOTA Override\<close> column the
  resolver raises KeyError instead of falling through to the automatic fit, whereas the
  metadata extractor, which asks \<^verbatim>\<open>in df.columns\<close> first, answers its defaults on the
  same sheet.
\<close>

theorem missing_override_column_raises:
  "sota_fn curve_fit required_only = Inl (KeyError ''SOTA Override'')
   \<and> get_chart_metadata required_only
       = Inr (''Figure of Merit (FOM) Scatter Plot'', ''X FOM'', ''Y FOM'')"
  by (simp add: sota_fn_def parse_sota_override_def column_def required_only_def
      get_chart_metadata_def metadata_value_def)

text \<open>
  Where the column is present the resolver does fall through: on an empty column and on a
  first value that the pattern does not match.
\<close>

lemma sota_fn_falls_through:
  assumes "''SOTA Override'' \<in> set (columns df)"
    and "dropna (map SOTA_Override (rows df)) = []
         \<or> (\<exists>s rest. dropna (map SOTA_Override (rows df)) = s # rest \<and> re_search s = None)"
  shows "sota_fn curve_fit df = compute_sota_auto curve_fit df"
  using assms
  by (auto simp: sota_fn_def parse_sota_override_def column_def parse_formula_def)

end
